theory Spec2Isabelle
  imports Complex_Main "HOL-Library.Log_Nat"
begin

section \<open>JavaScript values\<close>

subsection \<open>Numbers\<close>

text \<open>
  A JavaScript Number is an IEEE 754 binary64 value. It is kept here as a sign and an
  exact rational magnitude, so that two numbers are equal exactly when their
  representations are; \<open>Finite True 0\<close> is the negative zero.
\<close>

datatype jsnum = NaN | Infinity bool | Finite bool rat

text \<open>\<open>ilog2 x\<close> is the binary exponent of a positive rational: \<open>2 ^ ilog2 x \<le> x < 2 ^ (ilog2 x + 1)\<close>.\<close>

definition ilog2 :: "rat \<Rightarrow> int" where
  "ilog2 x = (let (p, q) = quotient_of x; d = bitlen p - bitlen q
              in if 2 powi d \<le> x then d else d - 1)"

definition round_half_even :: "rat \<Rightarrow> int" where
  "round_half_even x =
     (let f = \<lfloor>x\<rfloor>; d = x - of_int f
      in if d < 1 / 2 then f else if 1 / 2 < d then f + 1 else if even f then f else f + 1)"

text \<open>
  Rounding of an exact non-negative magnitude to binary64, to nearest with ties to even:
  53 significant bits, the least exponent of a unit in the last place is \<open>-1074\<close>
  (subnormal numbers), and a result of \<open>2 ^ 1024\<close> or more is infinite.
\<close>

definition round_double :: "bool \<Rightarrow> rat \<Rightarrow> jsnum" where
  "round_double s x =
     (if x = 0 then Finite s 0
      else let q = max (ilog2 x - 52) (- 1074);
               v = of_int (round_half_even (x / 2 powi q)) * 2 powi q
           in if 2 powi 1024 \<le> v then Infinity s else Finite s v)"

text \<open>The operator \<^verbatim>\<open>*\<close> on two Numbers (ECMAScript Number::multiply).\<close>

fun js_mul :: "jsnum \<Rightarrow> jsnum \<Rightarrow> jsnum" where
  "js_mul NaN _ = NaN"
| "js_mul _ NaN = NaN"
| "js_mul (Infinity s) (Infinity t) = Infinity (s \<noteq> t)"
| "js_mul (Infinity s) (Finite t y) = (if y = 0 then NaN else Infinity (s \<noteq> t))"
| "js_mul (Finite s x) (Infinity t) = (if x = 0 then NaN else Infinity (s \<noteq> t))"
| "js_mul (Finite s x) (Finite t y) = round_double (s \<noteq> t) (x * y)"

text \<open>The operators \<^verbatim>\<open><\<close> and \<^verbatim>\<open><=\<close> on two Numbers; every comparison with NaN is false.\<close>

fun js_lt :: "jsnum \<Rightarrow> jsnum \<Rightarrow> bool" where
  "js_lt NaN _ = False"
| "js_lt _ NaN = False"
| "js_lt (Infinity s) (Infinity t) = (s \<and> \<not> t)"
| "js_lt (Infinity s) (Finite t y) = s"
| "js_lt (Finite s x) (Infinity t) = (\<not> t)"
| "js_lt (Finite s x) (Finite t y) = ((if s then - x else x) < (if t then - y else y))"

fun js_le :: "jsnum \<Rightarrow> jsnum \<Rightarrow> bool" where
  "js_le NaN _ = False"
| "js_le _ NaN = False"
| "js_le (Infinity s) (Infinity t) = (s \<or> \<not> t)"
| "js_le (Infinity s) (Finite t y) = s"
| "js_le (Finite s x) (Infinity t) = (\<not> t)"
| "js_le (Finite s x) (Finite t y) = ((if s then - x else x) \<le> (if t then - y else y))"

definition num_of_int :: "int \<Rightarrow> jsnum" where
  "num_of_int n = Finite (n < 0) (of_int \<bar>n\<bar>)"

text \<open>The mathematical value of a finite Number.\<close>

fun num_val :: "jsnum \<Rightarrow> rat option" where
  "num_val (Finite s x) = Some (if s then - x else x)"
| "num_val _ = None"

text \<open>A sign and magnitude denote a binary64 value when rounding leaves them as they are.\<close>

definition is_double :: "jsnum \<Rightarrow> bool" where
  "is_double a = (case a of Finite s x \<Rightarrow> 0 \<le> x \<and> round_double s x = Finite s x | _ \<Rightarrow> True)"

subsection \<open>Integers as decimal strings\<close>

definition digit_char :: "nat \<Rightarrow> char" where
  "digit_char d = ''0123456789'' ! d"

fun decimal :: "nat \<Rightarrow> string" where
  "decimal n = (if n < 10 then [digit_char n] else decimal (n div 10) @ [digit_char (n mod 10)])"

declare decimal.simps [simp del]

text \<open>
  ToString of an integral Number below \<open>10 ^ 21\<close> in magnitude, which every time value
  of \<^verbatim>\<open>Date.now()\<close> is.
\<close>

definition ToString :: "int \<Rightarrow> string" where
  "ToString i = (if i < 0 then CHR ''-'' # decimal (nat (- i)) else decimal (nat i))"

subsection \<open>JSON\<close>

text \<open>
  What \<^verbatim>\<open>express.json()\<close> leaves in \<^verbatim>\<open>req.body\<close>. A property of the body that is not
  there reads as \<^verbatim>\<open>undefined\<close>: such a field is \<open>None\<close> below.
\<close>

datatype json =
    JNull
  | JBool bool
  | JNum jsnum
  | JStr string
  | JArr "json list"
  | JObj "(string \<times> json) list"

section \<open>The Booking model and the document store\<close>

text \<open>
  \<^verbatim>\<open>server.js\<close> imports the Booking and Restaurant models from \<^verbatim>\<open>models/Booking.js\<close> and
  \<^verbatim>\<open>models/Restaurant.js\<close>; the store behind them is a database, and the payment gateway
  is a service. The handlers of \<^verbatim>\<open>server.js\<close> below take the operations they call as
  arguments, so that what a handler does by itself can be stated for every such
  operation; this section gives the operations the specification describes, to run
  the handlers on.
\<close>

text \<open>
  Modelled from the spec: \<^verbatim>\<open>mongoose.Types.ObjectId.isValid\<close>, the Identity Validator of
  section 4.1, a pure format check for "a 24-character hex object reference".
\<close>

definition is_hex :: "char \<Rightarrow> bool" where
  "is_hex c = (c \<in> set ''0123456789abcdefABCDEF'')"

definition isValid :: "string \<Rightarrow> bool" where
  "isValid s = (length s = 24 \<and> list_all is_hex s)"

text \<open>The seven properties the booking handler reads from the request body.\<close>

record booking_fields =
  userId :: "json option"
  restaurantId :: "json option"
  date :: "json option"
  time :: "json option"
  seats :: "json option"
  amountPaid :: "json option"
  confirmationCode :: "json option"

text \<open>A stored Booking: the fields and the identifier the system generated for it.\<close>

record booking = booking_fields +
  booking_id :: nat

text \<open>
  A Booking after \<^verbatim>\<open>populate("restaurantId")\<close>: in the JSON of the response the key
  \<^verbatim>\<open>restaurantId\<close> holds the Restaurant document \<open>restaurant\<close>, or null when there is none.
\<close>

record populated_booking =
  doc :: booking
  restaurant :: "json option"

text \<open>
  The body of a payment request, \<^verbatim>\<open>{ amount, currency }\<close>, the options the handler builds
  from it, and the order the gateway returns. The field \<open>amount\<close> is the Number that the
  multiplication of the handler works on: the amount of the body when that is a JSON
  number, and otherwise what ToNumber makes of it (\<open>NaN\<close> for an amount that is not
  there, 0 for \<^verbatim>\<open>null\<close>). An amount for which ToNumber throws (an object with a property
  \<^verbatim>\<open>toString\<close> of its own) is not among these requests: the handler answers it 500
  before any order is requested.
\<close>

record payment_request =
  amount :: jsnum
  currency :: "json option"

record order_options = payment_request +
  receipt :: string

record order = order_options +
  order_id :: string

datatype model_call = Save booking_fields | Find string

text \<open>
  Everything outside the process that a handler can reach: the Booking collection in
  insertion order, the identifier the next Booking gets, the identifiers of the
  identities that exist, the Restaurant collection by identifier, the calls made so far
  on the Booking model, and the orders requested so far from the payment gateway.
\<close>

record world =
  bookings :: "booking list"
  next_id :: nat
  identities :: "string list"
  restaurants :: "(string \<times> json) list"
  calls :: "model_call list"
  orders_requested :: "order_options list"

definition required_present :: "booking_fields \<Rightarrow> bool" where
  "required_present f =
     (userId f \<noteq> None \<and> restaurantId f \<noteq> None \<and> date f \<noteq> None \<and> time f \<noteq> None \<and>
      seats f \<noteq> None \<and> amountPaid f \<noteq> None \<and> confirmationCode f \<noteq> None)"

definition wellformed_userId :: "json option \<Rightarrow> bool" where
  "wellformed_userId v = (case v of Some (JStr u) \<Rightarrow> isValid u | _ \<Rightarrow> False)"

definition positive_seats :: "json option \<Rightarrow> bool" where
  "positive_seats v = (case v of Some (JNum n) \<Rightarrow> js_lt (num_of_int 0) n | _ \<Rightarrow> False)"

definition nonnegative_amount :: "json option \<Rightarrow> bool" where
  "nonnegative_amount v = (case v of Some (JNum a) \<Rightarrow> js_le (num_of_int 0) a | _ \<Rightarrow> False)"

definition integral_seats :: "json option \<Rightarrow> bool" where
  "integral_seats v = (case v of Some (JNum (Finite s x)) \<Rightarrow> of_int \<lfloor>x\<rfloor> = x | _ \<Rightarrow> False)"

text \<open>
  Modelled from the spec: the validation of the Booking schema (\<^verbatim>\<open>models/Booking.js\<close>),
  from section 4.2 ("All required", the owner validated per 4.1), the data model of
  section 3 ("\<open>seats\<close>: positive integer party size") and its invariants (\<open>seats > 0\<close>,
  \<open>amountPaid >= 0\<close>).
\<close>

definition valid_booking :: "booking_fields \<Rightarrow> bool" where
  "valid_booking f =
     (required_present f \<and> wellformed_userId (userId f) \<and> positive_seats (seats f) \<and>
      integral_seats (seats f) \<and> nonnegative_amount (amountPaid f))"

text \<open>
  Modelled from the spec: the third invariant of section 3, "A Booking's \<open>userId\<close> must
  reference an existing identity; \<open>restaurantId\<close> must reference an existing restaurant
  (validated at the persistence boundary ...)": a look into the store as it is when the
  Booking is written.
\<close>

definition references_exist :: "world \<Rightarrow> booking_fields \<Rightarrow> bool" where
  "references_exist w f =
     ((case userId f of Some (JStr u) \<Rightarrow> u \<in> set (identities w) | _ \<Rightarrow> False) \<and>
      (case restaurantId f of Some (JStr r) \<Rightarrow> map_of (restaurants w) r \<noteq> None | _ \<Rightarrow> False))"

text \<open>
  Modelled from the spec: the document of a Booking, "the persisted entity including its
  generated id" of section 4.2: the fields as they were given, under the identifier \<open>i\<close>.
\<close>

definition stored :: "booking_fields \<Rightarrow> nat \<Rightarrow> booking" where
  "stored f i =
     \<lparr>userId = userId f, restaurantId = restaurantId f, date = date f, time = time f,
      seats = seats f, amountPaid = amountPaid f, confirmationCode = confirmationCode f,
      booking_id = i\<rparr>"

text \<open>
  Modelled from the spec: \<^verbatim>\<open>new Booking(fields).save()\<close> of \<^verbatim>\<open>models/Booking.js\<close>, the
  insert of the Booking Record Store of section 4.2. The call is recorded; a document
  that fails the validation of the schema is refused; \<open>fault\<close> is the message of the
  error with which the store refuses the write this time (unreachable, write rejected),
  if it does; a store that works refuses a document whose references do not exist;
  otherwise the Booking is appended under a fresh identifier and returned.
\<close>

definition Booking_save :: "string option \<Rightarrow> booking_fields \<Rightarrow> world \<Rightarrow> (string + booking) \<times> world" where
  "Booking_save fault f w =
     (let w1 = w\<lparr>calls := calls w @ [Save f]\<rparr>
      in if \<not> valid_booking f then (Inl ''Booking validation failed'', w1)
         else case fault of
                Some message \<Rightarrow> (Inl message, w1)
              | None \<Rightarrow>
                  if \<not> references_exist w f then (Inl ''Booking validation failed'', w1)
                  else let b = stored f (next_id w)
                       in (Inr b, w1\<lparr>bookings := bookings w @ [b], next_id := Suc (next_id w)\<rparr>))"

text \<open>
  Modelled from the spec: \<^verbatim>\<open>Booking.find({ userId })\<close>, the query by owner of the Booking
  Record Store: the Bookings of that owner in insertion order, or the store's error.
\<close>

definition Booking_find :: "string option \<Rightarrow> string \<Rightarrow> world \<Rightarrow> (string + booking list) \<times> world" where
  "Booking_find fault u w =
     (let w1 = w\<lparr>calls := calls w @ [Find u]\<rparr>
      in case fault of
           Some message \<Rightarrow> (Inl message, w1)
         | None \<Rightarrow> (Inr (filter (\<lambda>b. userId b = Some (JStr u)) (bookings w)), w1))"

text \<open>
  Modelled from the spec: \<^verbatim>\<open>populate("restaurantId")\<close>, the expansion of the Restaurant
  reference of section 4.2: the referenced Restaurant document, if there is one.
\<close>

definition populate :: "(string \<times> json) list \<Rightarrow> booking \<Rightarrow> populated_booking" where
  "populate rs b =
     \<lparr>doc = b,
      restaurant = (case restaurantId b of Some (JStr r) \<Rightarrow> map_of rs r | _ \<Rightarrow> None)\<rparr>"

definition Booking_find_populate ::
  "string option \<Rightarrow> string \<Rightarrow> world \<Rightarrow> (string + populated_booking list) \<times> world" where
  "Booking_find_populate fault u w =
     (case Booking_find fault u w of
        (Inr bs, w1) \<Rightarrow> (Inr (map (populate (restaurants w1)) bs), w1)
      | (Inl message, w1) \<Rightarrow> (Inl message, w1))"

text \<open>
  Modelled from the spec: \<^verbatim>\<open>razorpay.orders.create\<close>, the external gateway of section 4.3.
  The request is recorded; \<open>reply\<close> is the gateway's answer this time, an error or the
  identifier of the order it created, which carries the amount, currency and receipt
  that were asked for.
\<close>

definition razorpay_orders_create ::
  "string + string \<Rightarrow> order_options \<Rightarrow> world \<Rightarrow> (string + order) \<times> world" where
  "razorpay_orders_create reply options w =
     (let w1 = w\<lparr>orders_requested := orders_requested w @ [options]\<rparr>
      in case reply of
           Inl message \<Rightarrow> (Inl message, w1)
         | Inr oid \<Rightarrow>
             (Inr \<lparr>amount = amount options, currency = currency options,
                   receipt = receipt options, order_id = oid\<rparr>, w1))"

section \<open>The route handlers of server.js\<close>

text \<open>
  A response is the status code and the JSON body. \<open>Message s\<close> is the object
  \<^verbatim>\<open>{ message: s }\<close> and \<open>ErrorMessage s\<close> the object \<^verbatim>\<open>{ error: s }\<close>.
\<close>

datatype json_body =
    Message string
  | ErrorMessage string
  | BookingJson booking
  | BookingsJson "booking list"
  | PopulatedJson "populated_booking list"
  | OrderJson order
  | AvailabilityJson string bool

record response =
  status :: nat
  body :: json_body

text \<open>
  \<^verbatim>\<open>app.post("/api/bookings", ...)\<close>: the seven fields go to a new Booking, which is saved;
  the saved Booking is answered with 201, and any error with 500 and its message.
\<close>

definition post_api_bookings ::
  "(booking_fields \<Rightarrow> 'w \<Rightarrow> (string + booking) \<times> 'w) \<Rightarrow> booking_fields \<Rightarrow> 'w \<Rightarrow> response \<times> 'w" where
  "post_api_bookings save req_body w =
     (let newBooking = \<lparr>userId = userId req_body, restaurantId = restaurantId req_body,
                         date = date req_body, time = time req_body, seats = seats req_body,
                         amountPaid = amountPaid req_body,
                         confirmationCode = confirmationCode req_body\<rparr>
      in case save newBooking w of
           (Inr savedBooking, w1) \<Rightarrow> (\<lparr>status = 201, body = BookingJson savedBooking\<rparr>, w1)
         | (Inl error_message, w1) \<Rightarrow>
             (\<lparr>status = 500, body = Message (''Server error: '' @ error_message)\<rparr>, w1))"

text \<open>\<^verbatim>\<open>app.get("/api/bookings/:userId", ...)\<close>.\<close>

definition get_api_bookings_userId ::
  "(string \<Rightarrow> 'w \<Rightarrow> (string + populated_booking list) \<times> 'w) \<Rightarrow> string \<Rightarrow> 'w \<Rightarrow> response \<times> 'w" where
  "get_api_bookings_userId find_populate uid w =
     (case find_populate uid w of
        (Inr userBookings, w1) \<Rightarrow>
          if length userBookings = 0
          then (\<lparr>status = 404, body = Message ''No bookings found''\<rparr>, w1)
          else (\<lparr>status = 200, body = PopulatedJson userBookings\<rparr>, w1)
      | (Inl error_message, w1) \<Rightarrow>
          (\<lparr>status = 500, body = Message ''Error fetching bookings''\<rparr>, w1))"

text \<open>
  The \<^verbatim>\<open>options\<close> of \<^verbatim>\<open>app.post("/api/payment", ...)\<close>; \<open>now\<close> is what \<^verbatim>\<open>Date.now()\<close>
  returns, the milliseconds of the wall clock.
\<close>

definition payment_options :: "int \<Rightarrow> payment_request \<Rightarrow> order_options" where
  "payment_options now req_body =
     \<lparr>amount = js_mul (amount req_body) (num_of_int 100),
      currency = currency req_body,
      receipt = ''order_rcptid_'' @ ToString now\<rparr>"

definition post_api_payment ::
  "(order_options \<Rightarrow> 'w \<Rightarrow> (string + order) \<times> 'w) \<Rightarrow> int \<Rightarrow> payment_request \<Rightarrow> 'w \<Rightarrow> response \<times> 'w" where
  "post_api_payment orders_create now req_body w =
     (case orders_create (payment_options now req_body) w of
        (Inr order, w1) \<Rightarrow> (\<lparr>status = 200, body = OrderJson order\<rparr>, w1)
      | (Inl error_message, w1) \<Rightarrow>
          (\<lparr>status = 500, body = ErrorMessage ''Failed to create order''\<rparr>, w1))"

text \<open>
  \<^verbatim>\<open>app.get("/bookings", ...)\<close>; the argument is \<^verbatim>\<open>req.query.userId\<close>, and \<^verbatim>\<open>!userId\<close> holds
  of a parameter that is not there and of the empty string.
\<close>

definition get_bookings ::
  "(string \<Rightarrow> 'w \<Rightarrow> (string + booking list) \<times> 'w) \<Rightarrow> string option \<Rightarrow> 'w \<Rightarrow> response \<times> 'w" where
  "get_bookings find_by_owner query_userId w =
     (case query_userId of
        None \<Rightarrow> (\<lparr>status = 400, body = ErrorMessage ''userId is required''\<rparr>, w)
      | Some uid \<Rightarrow>
          if uid = [] then (\<lparr>status = 400, body = ErrorMessage ''userId is required''\<rparr>, w)
          else if \<not> isValid uid
          then (\<lparr>status = 400, body = ErrorMessage ''Invalid userId format''\<rparr>, w)
          else (case find_by_owner uid w of
                  (Inr found, w1) \<Rightarrow> (\<lparr>status = 200, body = BookingsJson found\<rparr>, w1)
                | (Inl error_message, w1) \<Rightarrow>
                    (\<lparr>status = 500, body = ErrorMessage ''Internal server error''\<rparr>, w1)))"

text \<open>\<^verbatim>\<open>app.get('/api/userAvailability/:userId/availability', ...)\<close>.\<close>

definition get_api_userAvailability :: "string \<Rightarrow> response" where
  "get_api_userAvailability uid = \<lparr>status = 200, body = AvailabilityJson uid True\<rparr>"

subsection \<open>The server\<close>

text \<open>
  The requests that reach the handlers above, and what the environment decides while
  one is served: whether the store fails (and with what message), the reading of the
  clock, and the answer of the payment gateway. Express offers a request first to the
  routers that \<^verbatim>\<open>server.js\<close> mounts with \<^verbatim>\<open>app.use\<close> (\<^verbatim>\<open>bookingRoutes\<close> under
  \<^verbatim>\<open>/api/bookings\<close> among them); the handlers are what \<^verbatim>\<open>server.js\<close> itself answers with.
\<close>

datatype request =
    POST_api_bookings booking_fields
  | GET_api_bookings_userId string
  | POST_api_payment payment_request
  | GET_bookings "string option"
  | GET_api_userAvailability string

record env =
  store_fault :: "string option"
  now :: int
  gateway_reply :: "string + string"

definition handle :: "env \<Rightarrow> request \<Rightarrow> world \<Rightarrow> response \<times> world" where
  "handle e r w =
     (case r of
        POST_api_bookings req_body \<Rightarrow> post_api_bookings (Booking_save (store_fault e)) req_body w
      | GET_api_bookings_userId uid \<Rightarrow>
          get_api_bookings_userId (Booking_find_populate (store_fault e)) uid w
      | POST_api_payment req_body \<Rightarrow>
          post_api_payment (razorpay_orders_create (gateway_reply e)) (now e) req_body w
      | GET_bookings query_userId \<Rightarrow> get_bookings (Booking_find (store_fault e)) query_userId w
      | GET_api_userAvailability uid \<Rightarrow> (get_api_userAvailability uid, w))"

text \<open>Requests served one after the other, each in its own environment.\<close>

fun run :: "(env \<times> request) list \<Rightarrow> world \<Rightarrow> response list \<times> world" where
  "run [] w = ([], w)"
| "run ((e, r) # rest) w =
     (case handle e r w of
        (res, w1) \<Rightarrow> (case run rest w1 of (ress, w2) \<Rightarrow> (res # ress, w2)))"

section \<open>Example requests\<close>

text \<open>Scenario 1 of the specification.\<close>

definition scenario_booking :: booking_fields where
  "scenario_booking =
     \<lparr>userId = Some (JStr ''507f1f77bcf86cd799439011''),
      restaurantId = Some (JStr ''507f191e810c19729de860ea''),
      date = Some (JStr ''2024-05-01''),
      time = Some (JStr ''19:00''),
      seats = Some (JNum (num_of_int 2)),
      amountPaid = Some (JNum (num_of_int 500)),
      confirmationCode = Some (JStr ''order_rcptid_1234'')\<rparr>"

text \<open>A world with no documents, in which nothing has been called yet.\<close>

definition empty_world :: world where
  "empty_world =
     \<lparr>bookings = [], next_id = 0, identities = [], restaurants = [], calls = [],
      orders_requested = []\<rparr>"

text \<open>An environment in which the store and the gateway work.\<close>

definition quiet :: env where
  "quiet = \<lparr>store_fault = None, now = 1714586400000, gateway_reply = Inr ''order_1''\<rparr>"

text \<open>The Bookings a user owns.\<close>

definition bookings_of :: "string \<Rightarrow> world \<Rightarrow> booking list" where
  "bookings_of u w = filter (\<lambda>b. userId b = Some (JStr u)) (bookings w)"

text \<open>
  The Number that the JSON literal \<^verbatim>\<open>0.07\<close> denotes, \<^verbatim>\<open>0x1.1eb851eb851ecp-4\<close>: the binary64
  value nearest to 7/100.
\<close>

definition seven_hundredths :: jsnum where
  "seven_hundredths = Finite False (5044031582654956 / 2 ^ 56)"

text \<open>Payment requests served one after the other, and the receipts of the orders they ask for.\<close>

definition payment_calls :: "(env \<times> payment_request) list \<Rightarrow> (env \<times> request) list" where
  "payment_calls cs = map (\<lambda>(e, p). (e, POST_api_payment p)) cs"

definition receipts_requested :: "(env \<times> payment_request) list \<Rightarrow> string list" where
  "receipts_requested cs = map receipt (orders_requested (snd (run (payment_calls cs) empty_world)))"

text \<open>The identifiers of the Bookings that a list of responses returns to createBooking calls.\<close>

fun created_ids :: "response list \<Rightarrow> nat list" where
  "created_ids [] = []"
| "created_ids (r # rs) =
     (case body r of BookingJson b \<Rightarrow> booking_id b # created_ids rs | _ \<Rightarrow> created_ids rs)"

text \<open>The invariants of section 3 of the specification on a stored Booking.\<close>

definition within_invariants :: "booking \<Rightarrow> bool" where
  "within_invariants b = (positive_seats (seats b) \<and> nonnegative_amount (amountPaid b))"

text \<open>Worlds in which the user of scenario 1 exists, its restaurant exists, and both do.\<close>

definition identity_only_world :: world where
  "identity_only_world = empty_world\<lparr>identities := [''507f1f77bcf86cd799439011'']\<rparr>"

definition restaurant_only_world :: world where
  "restaurant_only_world =
     empty_world\<lparr>restaurants := [(''507f191e810c19729de860ea'', JObj [(''name'', JStr ''Spice Garden'')])]\<rparr>"

definition restaurant_world :: world where
  "restaurant_world =
     empty_world\<lparr>identities := [''507f1f77bcf86cd799439011''],
       restaurants := [(''507f191e810c19729de860ea'', JObj [(''name'', JStr ''Spice Garden'')])]\<rparr>"

text \<open>That world after the booking of scenario 1 has been created in it.\<close>

definition booked_world :: world where
  "booked_world = snd (handle quiet (POST_api_bookings scenario_booking) restaurant_world)"

text \<open>Scenario 1 with an owner that is no identifier, and scenario 1 without its seats.\<close>

definition malformed_booking :: booking_fields where
  "malformed_booking = scenario_booking\<lparr>userId := Some (JStr ''not-an-id'')\<rparr>"

definition incomplete_booking :: booking_fields where
  "incomplete_booking = scenario_booking\<lparr>seats := None\<rparr>"

text \<open>Scenario 1 for two and a half seats.\<close>

definition fractional_booking :: booking_fields where
  "fractional_booking = scenario_booking\<lparr>seats := Some (JNum (Finite False (5 / 2)))\<rparr>"

text \<open>An environment in which the store refuses every operation.\<close>

definition store_down :: env where
  "store_down = quiet\<lparr>store_fault := Some ''connect ECONNREFUSED 127.0.0.1:27017''\<rparr>"

section \<open>Properties\<close>

subsection \<open>Numbers\<close>

lemma round_half_even_of_int: "round_half_even (of_int z) = z"
  by (simp add: round_half_even_def Let_def)

lemma bitlen_one: "bitlen 1 = 1"
  by (simp add: bitlen_alt_def)

lemma ilog2_of_int_le:
  assumes "0 < k" "k < 2 ^ 53"
  shows "ilog2 (of_int k) \<le> 52"
proof -
  have "bitlen k \<le> 53"
    using assms by (simp add: bitlen_le_iff_power)
  then show ?thesis
    by (simp add: ilog2_def Let_def bitlen_one)
qed

lemma round_double_of_int:
  assumes "0 \<le> k" "k < 2 ^ 53"
  shows "round_double s (of_int k) = Finite s (of_int k)"
proof (cases "k = 0")
  case True
  then show ?thesis by (simp add: round_double_def)
next
  case False
  with assms have pos: "0 < k" by simp
  define q where "q = max (ilog2 (of_int k) - 52) (- 1074)"
  have q0: "q \<le> 0"
    using ilog2_of_int_le [OF pos assms(2)] by (simp add: q_def)
  define j where "j = nat (- q)"
  have pw: "(2::rat) powi q = 1 / 2 ^ j"
    using q0 by (simp add: j_def power_int_def field_simps)
  have sc: "rat_of_int k / 2 powi q = of_int (k * 2 ^ j)"
    by (simp add: pw)
  have v: "of_int (round_half_even (rat_of_int k / 2 powi q)) * 2 powi q = rat_of_int k"
    unfolding sc round_half_even_of_int by (simp add: pw)
  have "rat_of_int k < 2 ^ 53"
    using assms(2) by (metis of_int_less_iff of_int_numeral of_int_power)
  then have small: "\<not> (2::rat) powi 1024 \<le> rat_of_int k"
    by (simp add: power_int_def)
  show ?thesis
    using False small by (simp add: round_double_def Let_def q_def [symmetric] v)
qed

lemma js_mul_hundred_int:
  assumes "\<bar>n\<bar> \<le> 90071992547409"
  shows "js_mul (num_of_int n) (num_of_int 100) = num_of_int (100 * n)"
proof -
  have b: "\<bar>n\<bar> * 100 < 2 ^ 53" using assms by simp
  have "rat_of_int \<bar>n\<bar> * 100 = rat_of_int (\<bar>n\<bar> * 100)" by simp
  then have "round_double (n < 0) (rat_of_int \<bar>n\<bar> * 100) = Finite (n < 0) (rat_of_int (\<bar>n\<bar> * 100))"
    using round_double_of_int [of "\<bar>n\<bar> * 100" "n < 0"] b by simp
  then show ?thesis
    by (simp add: num_of_int_def abs_mult)
qed

lemma round_half_even_above:
  assumes "of_int f + 1 / 2 < x" "x < of_int f + 1"
  shows "round_half_even x = f + 1"
proof -
  have "\<lfloor>x\<rfloor> = f"
    using assms by (intro floor_unique) simp_all
  then show ?thesis
    using assms by (simp add: round_half_even_def Let_def)
qed

lemma round_double_at:
  assumes "x \<noteq> 0" and "ilog2 x = e" and "max (e - 52) (- 1074) = - int j"
    and "round_half_even (x * 2 ^ j) = m" and "m < 2 ^ (1024 + j)"
  shows "round_double s x = Finite s (of_int m / 2 ^ j)"
proof -
  have pw: "(2::rat) powi (- int j) = 1 / 2 ^ j"
    by (simp add: power_int_minus field_simps)
  have "rat_of_int m < 2 ^ (1024 + j)"
    using assms(5) by (metis of_int_less_iff of_int_numeral of_int_power)
  then have "rat_of_int m / 2 ^ j < 2 ^ 1024"
    by (simp add: power_add field_simps)
  then show ?thesis
    using assms(1-4) by (simp add: round_double_def Let_def pw)
qed

lemma ilog2_seven: "ilog2 (5044031582654956 / 2 ^ 56 * 100) = 2"
  by code_simp

lemma ilog2_seven_hundredths: "ilog2 (5044031582654956 / 2 ^ 56) = - 4"
  by code_simp

lemma js_mul_seven_hundredths:
  "js_mul seven_hundredths (num_of_int 100) = Finite False (7881299347898369 / 2 ^ 50)"
proof -
  have "round_double False (5044031582654956 / 2 ^ 56 * 100) = Finite False (of_int 7881299347898369 / 2 ^ 50)"
  proof (rule round_double_at [OF _ ilog2_seven])
    show "round_half_even (5044031582654956 / 2 ^ 56 * 100 * 2 ^ 50) = 7881299347898369"
      using round_half_even_above [of 7881299347898368 "5044031582654956 / 2 ^ 56 * 100 * 2 ^ 50"]
      by simp
  qed simp_all
  then show ?thesis
    by (simp add: seven_hundredths_def num_of_int_def)
qed

lemma ilog2_7_100: "ilog2 (7 / 100) = - 4"
  by code_simp

lemma round_double_7_100: "round_double False (7 / 100) = seven_hundredths"
proof -
  have "round_double False (7 / 100) = Finite False (of_int 5044031582654956 / 2 ^ 56)"
  proof (rule round_double_at [OF _ ilog2_7_100])
    show "round_half_even (7 / 100 * 2 ^ 56) = 5044031582654956"
      using round_half_even_above [of 5044031582654955 "7 / 100 * 2 ^ 56"] by simp
  qed simp_all
  then show ?thesis
    by (simp add: seven_hundredths_def)
qed

lemma is_double_seven_hundredths: "is_double seven_hundredths"
proof -
  have "round_double False (5044031582654956 / 2 ^ 56) = Finite False (of_int 5044031582654956 / 2 ^ 56)"
  proof (rule round_double_at [OF _ ilog2_seven_hundredths])
    show "round_half_even (5044031582654956 / 2 ^ 56 * 2 ^ 56) = 5044031582654956"
      using round_half_even_of_int [of 5044031582654956] by simp
  qed simp_all
  then show ?thesis
    by (simp add: is_double_def seven_hundredths_def)
qed

subsection \<open>Decimal strings\<close>

lemma digit_char_inj:
  assumes "a < 10" "b < 10" "digit_char a = digit_char b"
  shows "a = b"
proof -
  have "distinct ''0123456789''" by simp
  moreover have "a < length ''0123456789''" "b < length ''0123456789''"
    using assms by simp_all
  ultimately show ?thesis
    using assms(3) unfolding digit_char_def by (simp only: nth_eq_iff_index_eq)
qed

lemma digit_char_not_minus:
  assumes "a < 10"
  shows "digit_char a \<noteq> CHR ''-''"
proof -
  have "digit_char a \<in> set ''0123456789''"
    unfolding digit_char_def using assms by (intro nth_mem) simp
  then show ?thesis by auto
qed

lemma decimal_not_Nil: "decimal n \<noteq> []" "[] \<noteq> decimal n"
  by (subst decimal.simps, simp)+

lemma hd_decimal_not_minus: "hd (decimal n) \<noteq> CHR ''-''"
proof (induction n rule: decimal.induct)
  case (1 n)
  show ?case
  proof (cases "n < 10")
    case True
    then show ?thesis
      by (subst decimal.simps) (simp add: digit_char_not_minus)
  next
    case False
    then show ?thesis
      using 1 by (subst decimal.simps) (simp add: decimal_not_Nil)
  qed
qed

lemma decimal_inj: "decimal n = decimal m \<Longrightarrow> n = m"
proof (induction n arbitrary: m rule: decimal.induct)
  case (1 n)
  show ?case
  proof (cases "n < 10")
    case small: True
    then have n: "decimal n = [digit_char n]"
      by (subst decimal.simps) simp
    show ?thesis
    proof (cases "m < 10")
      case True
      then have "decimal m = [digit_char m]"
        by (subst decimal.simps) simp
      with n "1.prems" small True show ?thesis
        by (simp add: digit_char_inj)
    next
      case False
      then have "decimal m = decimal (m div 10) @ [digit_char (m mod 10)]"
        by (subst decimal.simps) simp
      with n "1.prems" show ?thesis
        by (simp add: decimal_not_Nil)
    qed
  next
    case big: False
    then have n: "decimal n = decimal (n div 10) @ [digit_char (n mod 10)]"
      by (subst decimal.simps) simp
    show ?thesis
    proof (cases "m < 10")
      case True
      then have "decimal m = [digit_char m]"
        by (subst decimal.simps) simp
      with n "1.prems" show ?thesis
        by (simp add: decimal_not_Nil)
    next
      case False
      then have "decimal m = decimal (m div 10) @ [digit_char (m mod 10)]"
        by (subst decimal.simps) simp
      with n "1.prems" have eq: "decimal (n div 10) = decimal (m div 10)"
        and d: "digit_char (n mod 10) = digit_char (m mod 10)"
        by simp_all
      have "n div 10 = m div 10"
        using "1.IH" [OF big eq] .
      moreover have "n mod 10 = m mod 10"
        using d by (intro digit_char_inj) simp_all
      ultimately show ?thesis
        by (metis div_mult_mod_eq)
    qed
  qed
qed

lemma ToString_inj: "ToString i = ToString j \<Longrightarrow> i = j"
proof -
  assume eq: "ToString i = ToString j"
  have neg: "CHR ''-'' # decimal a \<noteq> decimal b" for a b
    using hd_decimal_not_minus [of b] decimal_not_Nil [of b] by (cases "decimal b") auto
  show ?thesis
  proof (cases "i < 0")
    case True
    then show ?thesis
      using eq neg [of "nat (- i)" "nat j"]
      by (cases "j < 0") (auto simp: ToString_def dest!: decimal_inj)
  next
    case False
    then show ?thesis
      using eq neg [of "nat (- j)" "nat i"]
      by (cases "j < 0") (auto simp: ToString_def dest!: decimal_inj)
  qed
qed

lemma receipt_payment_options_eq_iff:
  "receipt (payment_options t p) = receipt (payment_options t' p') \<longleftrightarrow> t = t'"
  by (auto simp: payment_options_def dest: ToString_inj)

subsection \<open>Payment orders\<close>

lemma handle_payment_orders:
  "orders_requested (snd (handle e (POST_api_payment p) w)) =
     orders_requested w @ [payment_options (now e) p]"
  by (cases "gateway_reply e")
    (simp_all add: handle_def post_api_payment_def razorpay_orders_create_def Let_def)

lemma handle_payment_response:
  assumes "gateway_reply e = Inr oid"
  shows "fst (handle e (POST_api_payment p) w) =
     \<lparr>status = 200,
      body = OrderJson \<lparr>amount = amount (payment_options (now e) p),
                        currency = currency (payment_options (now e) p),
                        receipt = receipt (payment_options (now e) p), order_id = oid\<rparr>\<rparr>"
  using assms by (simp add: handle_def post_api_payment_def razorpay_orders_create_def Let_def)

lemma payment_options_int:
  assumes "\<bar>n\<bar> \<le> 90071992547409"
  shows "payment_options t \<lparr>amount = num_of_int n, currency = c\<rparr> =
     \<lparr>amount = num_of_int (100 * n), currency = c, receipt = ''order_rcptid_'' @ ToString t\<rparr>"
  using js_mul_hundred_int [OF assms] by (simp add: payment_options_def)

lemma ToString_scenario: "ToString 1714586400000 = ''1714586400000''"
  by (simp add: ToString_def decimal.simps digit_char_def)

text \<open>
  An amount that is an integer \<open>n\<close> with \<open>|n| \<le> 90071992547409\<close>, so that \<open>100 * n\<close> is below
  \<open>2 ^ 53\<close>, is multiplied exactly: the order passed to the gateway has the amount
  \<open>100 * n\<close>, and when the gateway creates the order the response is 200 with that amount.
\<close>

lemma payment_amount_integer_exact:
  assumes "\<bar>n\<bar> \<le> 90071992547409"
  shows "orders_requested (snd (handle e (POST_api_payment \<lparr>amount = num_of_int n, currency = c\<rparr>) w)) =
           orders_requested w @
             [\<lparr>amount = num_of_int (100 * n), currency = c,
               receipt = ''order_rcptid_'' @ ToString (now e)\<rparr>] \<and>
         (gateway_reply e = Inr oid \<longrightarrow>
            fst (handle e (POST_api_payment \<lparr>amount = num_of_int n, currency = c\<rparr>) w) =
              \<lparr>status = 200,
               body = OrderJson \<lparr>amount = num_of_int (100 * n), currency = c,
                                 receipt = ''order_rcptid_'' @ ToString (now e), order_id = oid\<rparr>\<rparr>)"
  using handle_payment_response [of e oid "\<lparr>amount = num_of_int n, currency = c\<rparr>" w]
  by (simp add: handle_payment_orders payment_options_int [OF assms])

text \<open>Scenario 4 of the specification: 100 major units are 10000 minor units.\<close>

lemma payment_amount_scenario_4:
  "\<bar>100\<bar> \<le> (90071992547409::int) \<and>
   orders_requested (snd (handle quiet
       (POST_api_payment \<lparr>amount = num_of_int 100, currency = Some (JStr ''INR'')\<rparr>) empty_world)) =
     [\<lparr>amount = num_of_int 10000, currency = Some (JStr ''INR''),
       receipt = ''order_rcptid_1714586400000''\<rparr>] \<and>
   fst (handle quiet
       (POST_api_payment \<lparr>amount = num_of_int 100, currency = Some (JStr ''INR'')\<rparr>) empty_world) =
     \<lparr>status = 200,
      body = OrderJson \<lparr>amount = num_of_int 10000, currency = Some (JStr ''INR''),
                        receipt = ''order_rcptid_1714586400000'', order_id = ''order_1''\<rparr>\<rparr>"
  using payment_amount_integer_exact [of 100 quiet "Some (JStr ''INR'')" empty_world "''order_1''"]
  by (simp add: quiet_def empty_world_def ToString_scenario)

text \<open>
  C8 at the amount \<^verbatim>\<open>0.07\<close>. The handler passes the binary64 product \<^verbatim>\<open>0.07 * 100\<close> on as it
  is: the order requested from the gateway has the amount \<^verbatim>\<open>7.000000000000001\<close>, which is
  neither 7 nor 100 times the Number that \<^verbatim>\<open>0.07\<close> denotes.
\<close>

theorem payment_amount_seven_hundredths:
  "round_double False (7 / 100) = seven_hundredths \<and> is_double seven_hundredths \<and>
   orders_requested (snd (handle quiet
       (POST_api_payment \<lparr>amount = seven_hundredths, currency = Some (JStr ''INR'')\<rparr>) empty_world)) =
     [\<lparr>amount = Finite False (7881299347898369 / 2 ^ 50), currency = Some (JStr ''INR''),
       receipt = ''order_rcptid_1714586400000''\<rparr>] \<and>
   num_val (Finite False (7881299347898369 / 2 ^ 50)) \<noteq> Some 7 \<and>
   num_val (Finite False (7881299347898369 / 2 ^ 50)) \<noteq>
     map_option (\<lambda>a. 100 * a) (num_val seven_hundredths)"
proof -
  have "num_val (Finite False (7881299347898369 / 2 ^ 50)) \<noteq>
     map_option (\<lambda>a. 100 * a) (num_val seven_hundredths)"
    "num_val (Finite False (7881299347898369 / 2 ^ 50)) \<noteq> Some 7"
    by (simp_all add: seven_hundredths_def)
  then show ?thesis
    by (simp add: round_double_7_100 is_double_seven_hundredths handle_payment_orders payment_options_def
        js_mul_seven_hundredths quiet_def empty_world_def ToString_scenario)
qed

lemma run_payment_calls:
  "orders_requested (snd (run (payment_calls cs) w)) =
     orders_requested w @ map (\<lambda>(e, p). payment_options (now e) p) cs"
proof (induction cs arbitrary: w)
  case Nil
  then show ?case by (simp add: payment_calls_def)
next
  case (Cons c cs)
  obtain e p where c: "c = (e, p)" by (cases c)
  obtain res w1 where h: "handle e (POST_api_payment p) w = (res, w1)"
    by (cases "handle e (POST_api_payment p) w")
  have w1: "orders_requested w1 = orders_requested w @ [payment_options (now e) p]"
    using handle_payment_orders [of e p w] h by simp
  have "run (payment_calls (c # cs)) w =
      (res # fst (run (payment_calls cs) w1), snd (run (payment_calls cs) w1))"
    using c h by (simp add: payment_calls_def split: prod.splits)
  then show ?case
    using Cons.IH [of w1] w1 c by simp
qed

lemma receipts_requested_eq:
  "receipts_requested cs = map (\<lambda>t. ''order_rcptid_'' @ ToString t) (map (\<lambda>(e, p). now e) cs)"
proof -
  have "map receipt (map (\<lambda>(e, p). payment_options (now e) p) cs) =
      map (\<lambda>t. ''order_rcptid_'' @ ToString t) (map (\<lambda>(e, p). now e) cs)"
    by (induction cs) (auto simp: payment_options_def)
  then show ?thesis
    by (simp add: receipts_requested_def run_payment_calls empty_world_def)
qed

text \<open>
  C9, as the code has it. The receipts of the orders requested by a sequence of payment
  calls are pairwise distinct exactly when the readings of the clock at those calls are:
  two calls get the same receipt if and only if they read the same millisecond.
\<close>

theorem receipts_distinct_iff_clock_distinct:
  "distinct (receipts_requested cs) \<longleftrightarrow> distinct (map (\<lambda>(e, p). now e) cs)"
proof -
  have "inj (\<lambda>t. ''order_rcptid_'' @ ToString t)"
    by (rule injI) (simp add: ToString_inj)
  then have "inj_on (\<lambda>t. ''order_rcptid_'' @ ToString t) A" for A
    by (rule inj_on_subset) simp
  then show ?thesis
    unfolding receipts_requested_eq by (simp only: distinct_map simp_thms)
qed

text \<open>C9 as stated fails: two calls within one millisecond get one and the same receipt.\<close>

theorem receipts_same_millisecond_counterexample:
  "receipts_requested
     [(quiet, \<lparr>amount = num_of_int 100, currency = Some (JStr ''INR'')\<rparr>),
      (quiet, \<lparr>amount = num_of_int 250, currency = Some (JStr ''INR'')\<rparr>)] =
     [''order_rcptid_1714586400000'', ''order_rcptid_1714586400000''] \<and>
   \<not> distinct (receipts_requested
     [(quiet, \<lparr>amount = num_of_int 100, currency = Some (JStr ''INR'')\<rparr>),
      (quiet, \<lparr>amount = num_of_int 250, currency = Some (JStr ''INR'')\<rparr>)])"
  by (simp add: receipts_requested_eq quiet_def ToString_scenario)

subsection \<open>User availability\<close>

text \<open>
  C10. For every userId string, well-formed or not, and whatever the store holds, the
  availability route answers 200 with the userId and availability true; the world is
  left as it was: no call on the model, no change of the store.
\<close>

theorem userAvailability_constant:
  "handle e (GET_api_userAvailability uid) w =
     (\<lparr>status = 200, body = AvailabilityJson uid True\<rparr>, w)"
  by (simp add: handle_def get_api_userAvailability_def)

subsection \<open>Bookings\<close>

lemma post_api_bookings_status:
  "status (fst (post_api_bookings save f w)) = 201 \<or> status (fst (post_api_bookings save f w)) = 500"
  by (auto simp: post_api_bookings_def Let_def split: prod.splits sum.splits)

lemma get_api_bookings_userId_status:
  "status (fst (get_api_bookings_userId fp u w)) \<in> {200, 404, 500}"
  by (auto simp: get_api_bookings_userId_def split: prod.splits sum.splits)

lemma handle_post:
  "handle e (POST_api_bookings f) w =
     (if \<not> valid_booking f
      then (\<lparr>status = 500, body = Message ''Server error: Booking validation failed''\<rparr>,
            w\<lparr>calls := calls w @ [Save f]\<rparr>)
      else case store_fault e of
             Some m \<Rightarrow> (\<lparr>status = 500, body = Message (''Server error: '' @ m)\<rparr>,
                        w\<lparr>calls := calls w @ [Save f]\<rparr>)
           | None \<Rightarrow>
               if \<not> references_exist w f
               then (\<lparr>status = 500, body = Message ''Server error: Booking validation failed''\<rparr>,
                     w\<lparr>calls := calls w @ [Save f]\<rparr>)
               else (\<lparr>status = 201, body = BookingJson (stored f (next_id w))\<rparr>,
                     w\<lparr>calls := calls w @ [Save f],
                       bookings := bookings w @ [stored f (next_id w)],
                       next_id := Suc (next_id w)\<rparr>))"
  by (cases f) (simp add: handle_def post_api_bookings_def Booking_save_def Let_def
      split: option.splits)

lemma handle_get_api:
  "handle e (GET_api_bookings_userId u) w =
     (case store_fault e of
        Some m \<Rightarrow> (\<lparr>status = 500, body = Message ''Error fetching bookings''\<rparr>,
                   w\<lparr>calls := calls w @ [Find u]\<rparr>)
      | None \<Rightarrow>
          if bookings_of u w = []
          then (\<lparr>status = 404, body = Message ''No bookings found''\<rparr>,
                w\<lparr>calls := calls w @ [Find u]\<rparr>)
          else (\<lparr>status = 200,
                 body = PopulatedJson (map (populate (restaurants w)) (bookings_of u w))\<rparr>,
                w\<lparr>calls := calls w @ [Find u]\<rparr>))"
  by (simp add: handle_def get_api_bookings_userId_def Booking_find_populate_def Booking_find_def
      bookings_of_def Let_def split: option.splits)

lemma handle_get_bookings:
  "handle e (GET_bookings q) w =
     (case q of
        None \<Rightarrow> (\<lparr>status = 400, body = ErrorMessage ''userId is required''\<rparr>, w)
      | Some u \<Rightarrow>
          if u = [] then (\<lparr>status = 400, body = ErrorMessage ''userId is required''\<rparr>, w)
          else if \<not> isValid u
          then (\<lparr>status = 400, body = ErrorMessage ''Invalid userId format''\<rparr>, w)
          else (case store_fault e of
                  Some m \<Rightarrow> (\<lparr>status = 500, body = ErrorMessage ''Internal server error''\<rparr>,
                             w\<lparr>calls := calls w @ [Find u]\<rparr>)
                | None \<Rightarrow> (\<lparr>status = 200, body = BookingsJson (bookings_of u w)\<rparr>,
                           w\<lparr>calls := calls w @ [Find u]\<rparr>)))"
  by (simp add: handle_def get_bookings_def Booking_find_def bookings_of_def Let_def
      split: option.splits)

lemma handle_payment:
  "handle e (POST_api_payment p) w =
     (case gateway_reply e of
        Inl m \<Rightarrow> (\<lparr>status = 500, body = ErrorMessage ''Failed to create order''\<rparr>,
                  w\<lparr>orders_requested := orders_requested w @ [payment_options (now e) p]\<rparr>)
      | Inr oid \<Rightarrow>
          (\<lparr>status = 200,
            body = OrderJson \<lparr>amount = amount (payment_options (now e) p),
                              currency = currency (payment_options (now e) p),
                              receipt = receipt (payment_options (now e) p), order_id = oid\<rparr>\<rparr>,
           w\<lparr>orders_requested := orders_requested w @ [payment_options (now e) p]\<rparr>))"
  by (simp add: handle_def post_api_payment_def razorpay_orders_create_def Let_def
      split: sum.splits)

lemma handle_availability:
  "handle e (GET_api_userAvailability u) w = (get_api_userAvailability u, w)"
  by (simp add: handle_def)

lemmas handle_simps =
  handle_post handle_get_api handle_get_bookings handle_payment handle_availability

lemma valid_scenario_booking: "valid_booking scenario_booking"
  by (simp add: valid_booking_def scenario_booking_def required_present_def wellformed_userId_def
      positive_seats_def integral_seats_def nonnegative_amount_def isValid_def is_hex_def
      num_of_int_def)

lemma references_scenario_booking: "references_exist restaurant_world scenario_booking"
  by (simp add: references_exist_def restaurant_world_def scenario_booking_def)

lemma valid_booking_stored:
  assumes "valid_booking f"
  shows "within_invariants (stored f i)"
  using assms by (simp add: valid_booking_def within_invariants_def stored_def)

text \<open>What one request does to the Booking collection and to the identifier counter.\<close>

lemma handle_bookings:
  "\<exists>new. bookings (snd (handle e r w)) = bookings w @ new \<and> list_all within_invariants new"
  by (cases r)
    (auto simp: handle_simps valid_booking_stored split: option.splits sum.splits)

lemma handle_restaurants: "restaurants (snd (handle e r w)) = restaurants w"
  by (cases r) (auto simp: handle_simps split: option.splits sum.splits)

lemma handle_next_id:
  "(case body (fst (handle e r w)) of
      BookingJson b \<Rightarrow> booking_id b = next_id w \<and> next_id (snd (handle e r w)) = Suc (next_id w)
    | _ \<Rightarrow> next_id (snd (handle e r w)) = next_id w)"
  by (cases r)
    (auto simp: handle_simps stored_def get_api_userAvailability_def split: option.splits sum.splits)

lemma run_Cons:
  "run ((e, r) # rest) w =
     (fst (handle e r w) # fst (run rest (snd (handle e r w))), snd (run rest (snd (handle e r w))))"
  by (simp split: prod.splits)

declare run.simps(2) [simp del]

lemma run_bookings:
  "\<exists>new. bookings (snd (run cs w)) = bookings w @ new \<and> list_all within_invariants new"
proof (induction cs arbitrary: w)
  case Nil
  then show ?case by simp
next
  case (Cons c cs)
  obtain e r where c: "c = (e, r)" by (cases c)
  obtain n1 where n1: "bookings (snd (handle e r w)) = bookings w @ n1" "list_all within_invariants n1"
    using handle_bookings [of e r w] by blast
  obtain n2 where n2: "bookings (snd (run cs (snd (handle e r w)))) = bookings (snd (handle e r w)) @ n2"
      "list_all within_invariants n2"
    using Cons.IH [of "snd (handle e r w)"] by blast
  have "bookings (snd (run (c # cs) w)) = bookings w @ (n1 @ n2)"
    using n1(1) n2(1) by (simp add: c run_Cons)
  moreover have "list_all within_invariants (n1 @ n2)"
    using n1(2) n2(2) by simp
  ultimately show ?case by blast
qed

lemma run_restaurants: "restaurants (snd (run cs w)) = restaurants w"
proof (induction cs arbitrary: w)
  case Nil
  then show ?case by simp
next
  case (Cons c cs)
  obtain e r where c: "c = (e, r)" by (cases c)
  show ?case
    using Cons.IH [of "snd (handle e r w)"] by (simp add: c run_Cons handle_restaurants)
qed

lemma run_append:
  "run (xs @ ys) w =
     (fst (run xs w) @ fst (run ys (snd (run xs w))), snd (run ys (snd (run xs w))))"
proof (induction xs arbitrary: w)
  case Nil
  then show ?case by simp
next
  case (Cons c xs)
  obtain e r where c: "c = (e, r)" by (cases c)
  show ?case
    using Cons.IH [of "snd (handle e r w)"] by (simp add: c run_Cons)
qed

lemma length_run: "length (fst (run cs w)) = length cs"
proof (induction cs arbitrary: w)
  case Nil
  then show ?case by simp
next
  case (Cons c cs)
  obtain e r where c: "c = (e, r)" by (cases c)
  show ?case
    using Cons.IH [of "snd (handle e r w)"] by (simp add: c run_Cons)
qed

lemma created_ids_nth:
  assumes "k < length rs" "body (rs ! k) = BookingJson b"
  shows "booking_id b \<in> set (created_ids rs)"
  using assms
proof (induction rs arbitrary: k)
  case Nil
  then show ?case by simp
next
  case (Cons r rs)
  show ?case
  proof (cases k)
    case 0
    with Cons.prems show ?thesis by simp
  next
    case (Suc j)
    with Cons.prems have "booking_id b \<in> set (created_ids rs)"
      using Cons.IH [of j] by simp
    then show ?thesis
      by (cases "body r") simp_all
  qed
qed

lemma run_created_ids_bounds:
  "next_id w \<le> next_id (snd (run cs w)) \<and>
   (\<forall>i \<in> set (created_ids (fst (run cs w))). next_id w \<le> i \<and> i < next_id (snd (run cs w)))"
proof (induction cs arbitrary: w)
  case Nil
  then show ?case by simp
next
  case (Cons c cs)
  obtain e r where c: "c = (e, r)" by (cases c)
  let ?res = "fst (handle e r w)" and ?w1 = "snd (handle e r w)"
  have IH: "next_id ?w1 \<le> next_id (snd (run cs ?w1))"
    "\<forall>i \<in> set (created_ids (fst (run cs ?w1))). next_id ?w1 \<le> i \<and> i < next_id (snd (run cs ?w1))"
    using Cons.IH [of ?w1] by simp_all
  have run: "fst (run (c # cs) w) = ?res # fst (run cs ?w1)"
    "snd (run (c # cs) w) = snd (run cs ?w1)"
    by (simp_all add: c run_Cons)
  show ?case
  proof (cases "\<exists>b. body ?res = BookingJson b")
    case True
    then obtain b where b: "body ?res = BookingJson b" by blast
    then have "booking_id b = next_id w" "next_id ?w1 = Suc (next_id w)"
      using handle_next_id [of e r w] by simp_all
    then show ?thesis
      using IH b by (auto simp: run)
  next
    case False
    then have "next_id ?w1 = next_id w"
      using handle_next_id [of e r w] by (cases "body ?res") simp_all
    moreover have "created_ids (?res # fst (run cs ?w1)) = created_ids (fst (run cs ?w1))"
      using False by (cases "body ?res") simp_all
    ultimately show ?thesis
      using IH by (simp add: run)
  qed
qed

text \<open>
  C2, as the code has it. A booking request with all seven fields present, a well-formed
  userId, seats a positive integer and amountPaid at least 0, whose userId and
  restaurantId reference an identity and a restaurant that exist when it is served, and
  during which the store does not fail, is answered 201 with a Booking whose userId,
  restaurantId, date, time, seats, amountPaid and confirmationCode are those of the
  request; and whatever requests are served before and after it, the identifier of that
  Booking differs from the identifier of every Booking that any other of them returns.
\<close>

theorem createBooking_echoes_fields_fresh_id:
  assumes "valid_booking req"
    and "references_exist (snd (run pre w0)) req"
    and "store_fault e = None"
  shows "\<exists>b. fst (run (pre @ (e, POST_api_bookings req) # post) w0) ! length pre =
              \<lparr>status = 201, body = BookingJson b\<rparr> \<and>
            userId b = userId req \<and> restaurantId b = restaurantId req \<and> date b = date req \<and>
            time b = time req \<and> seats b = seats req \<and> amountPaid b = amountPaid req \<and>
            confirmationCode b = confirmationCode req \<and>
            (\<forall>k b'. k < length (pre @ (e, POST_api_bookings req) # post) \<and> k \<noteq> length pre \<and>
                body (fst (run (pre @ (e, POST_api_bookings req) # post) w0) ! k) = BookingJson b' \<longrightarrow>
              booking_id b' \<noteq> booking_id b)"
proof -
  let ?w = "snd (run pre w0)"
  let ?b = "stored req (next_id ?w)"
  let ?w1 = "snd (handle e (POST_api_bookings req) ?w)"
  let ?rs = "fst (run (pre @ (e, POST_api_bookings req) # post) w0)"
  have h: "fst (handle e (POST_api_bookings req) ?w) = \<lparr>status = 201, body = BookingJson ?b\<rparr>"
    and n1: "next_id ?w1 = Suc (next_id ?w)"
    using assms by (simp_all add: handle_post)
  have rs: "?rs = fst (run pre w0) @ \<lparr>status = 201, body = BookingJson ?b\<rparr> # fst (run post ?w1)"
    using h by (simp add: run_append run_Cons)
  have at: "?rs ! length pre = \<lparr>status = 201, body = BookingJson ?b\<rparr>"
    unfolding rs using length_run [of pre w0] by (simp add: nth_append)
  have other: "booking_id b' \<noteq> booking_id ?b"
    if k: "k < length (pre @ (e, POST_api_bookings req) # post)" "k \<noteq> length pre"
      and b': "body (?rs ! k) = BookingJson b'" for k b'
  proof (cases "k < length pre")
    case True
    then have "?rs ! k = fst (run pre w0) ! k"
      unfolding rs using length_run [of pre w0] by (simp add: nth_append)
    then have "booking_id b' \<in> set (created_ids (fst (run pre w0)))"
      using b' True created_ids_nth [of k "fst (run pre w0)" b'] by (simp add: length_run)
    then have "booking_id b' < next_id ?w"
      using run_created_ids_bounds [of w0 pre] by blast
    then show ?thesis
      by (simp add: stored_def)
  next
    case False
    define j where "j = k - Suc (length pre)"
    have j: "k = Suc (length pre + j)" "j < length post"
      using False k by (auto simp: j_def)
    have "?rs ! k = fst (run post ?w1) ! j"
      unfolding rs j(1) using length_run [of pre w0] by (simp add: nth_append)
    then have "booking_id b' \<in> set (created_ids (fst (run post ?w1)))"
      using b' j created_ids_nth [of j "fst (run post ?w1)" b'] by (simp add: length_run)
    then have "next_id ?w1 \<le> booking_id b'"
      using run_created_ids_bounds [of ?w1 post] by blast
    then show ?thesis
      using n1 by (simp add: stored_def)
  qed
  have fields: "userId ?b = userId req" "restaurantId ?b = restaurantId req" "date ?b = date req"
    "time ?b = time req" "seats ?b = seats req" "amountPaid ?b = amountPaid req"
    "confirmationCode ?b = confirmationCode req"
    by (simp_all add: stored_def)
  show ?thesis
    using at fields other by blast
qed


lemma references_exist_update:
  "references_exist (w\<lparr>calls := c\<rparr>) f = references_exist w f"
  "references_exist (w\<lparr>bookings := bs\<rparr>) f = references_exist w f"
  "references_exist (w\<lparr>next_id := n\<rparr>) f = references_exist w f"
  by (auto simp: references_exist_def split: option.splits json.splits)

lemma run_scenario_thrice:
  "fst (run [(quiet, POST_api_bookings scenario_booking), (quiet, POST_api_bookings scenario_booking),
             (store_down, POST_api_bookings scenario_booking),
             (quiet, POST_api_bookings scenario_booking)] restaurant_world) =
     [\<lparr>status = 201, body = BookingJson (stored scenario_booking 0)\<rparr>,
      \<lparr>status = 201, body = BookingJson (stored scenario_booking 1)\<rparr>,
      \<lparr>status = 500, body = Message ''Server error: connect ECONNREFUSED 127.0.0.1:27017''\<rparr>,
      \<lparr>status = 201, body = BookingJson (stored scenario_booking 2)\<rparr>]"
proof -
  have q: "store_fault quiet = None"
    "store_fault store_down = Some ''connect ECONNREFUSED 127.0.0.1:27017''"
    by (simp_all add: quiet_def store_down_def)
  have n: "next_id restaurant_world = 0"
    by (simp add: restaurant_world_def empty_world_def)
  show ?thesis
    by (simp add: run_Cons handle_post valid_scenario_booking references_scenario_booking
        references_exist_update q n numeral_2_eq_2)
qed

text \<open>
  Scenario 1 served four times, the third time by a store that is down: the second
  Booking gets the identifier 1, the others 0 and 2.
\<close>

theorem createBooking_echoes_fields_fresh_id_witness:
  "valid_booking scenario_booking \<and>
   references_exist
     (snd (run [(quiet, POST_api_bookings scenario_booking)] restaurant_world)) scenario_booking \<and>
   store_fault quiet = None \<and>
   fst (run [(quiet, POST_api_bookings scenario_booking), (quiet, POST_api_bookings scenario_booking),
             (store_down, POST_api_bookings scenario_booking),
             (quiet, POST_api_bookings scenario_booking)] restaurant_world) ! 1 =
     \<lparr>status = 201, body = BookingJson (stored scenario_booking 1)\<rparr> \<and>
   userId (stored scenario_booking 1) = Some (JStr ''507f1f77bcf86cd799439011'') \<and>
   seats (stored scenario_booking 1) = Some (JNum (num_of_int 2)) \<and>
   created_ids
     (fst (run [(quiet, POST_api_bookings scenario_booking), (quiet, POST_api_bookings scenario_booking),
                (store_down, POST_api_bookings scenario_booking),
                (quiet, POST_api_bookings scenario_booking)] restaurant_world)) = [0, 1, 2]"
proof -
  have q: "store_fault quiet = None"
    by (simp add: quiet_def)
  have r: "references_exist
      (snd (run [(quiet, POST_api_bookings scenario_booking)] restaurant_world)) scenario_booking"
    by (simp add: run_Cons handle_post valid_scenario_booking references_scenario_booking
        references_exist_update q)
  have ids: "created_ids
     (fst (run [(quiet, POST_api_bookings scenario_booking), (quiet, POST_api_bookings scenario_booking),
                (store_down, POST_api_bookings scenario_booking),
                (quiet, POST_api_bookings scenario_booking)] restaurant_world)) = [0, 1, 2]"
    unfolding run_scenario_thrice by (simp add: stored_def)
  have f: "userId (stored scenario_booking 1) = Some (JStr ''507f1f77bcf86cd799439011'')"
    "seats (stored scenario_booking 1) = Some (JNum (num_of_int 2))"
    by (simp_all add: stored_def scenario_booking_def)
  have at: "fst (run [(quiet, POST_api_bookings scenario_booking), (quiet, POST_api_bookings scenario_booking),
             (store_down, POST_api_bookings scenario_booking),
             (quiet, POST_api_bookings scenario_booking)] restaurant_world) ! 1 =
     \<lparr>status = 201, body = BookingJson (stored scenario_booking 1)\<rparr>"
    unfolding run_scenario_thrice by simp
  show ?thesis
    using createBooking_echoes_fields_fresh_id [OF valid_scenario_booking r q,
        of "[(store_down, POST_api_bookings scenario_booking),
             (quiet, POST_api_bookings scenario_booking)]"]
      valid_scenario_booking r q ids f at
    by blast
qed

text \<open>
  C2 as stated fails. The request of scenario 1 is valid as the claim has it, and is
  answered 500 when the store is down, when the restaurant does not exist, and when the
  user does not exist; with two and a half seats it is still valid as the claim has it,
  and is answered 500.
\<close>

theorem createBooking_valid_request_refused_counterexample:
  "required_present scenario_booking \<and> wellformed_userId (userId scenario_booking) \<and>
   positive_seats (seats scenario_booking) \<and> nonnegative_amount (amountPaid scenario_booking) \<and>
   fst (handle store_down (POST_api_bookings scenario_booking) restaurant_world) =
     \<lparr>status = 500, body = Message ''Server error: connect ECONNREFUSED 127.0.0.1:27017''\<rparr> \<and>
   fst (handle quiet (POST_api_bookings scenario_booking) identity_only_world) =
     \<lparr>status = 500, body = Message ''Server error: Booking validation failed''\<rparr> \<and>
   fst (handle quiet (POST_api_bookings scenario_booking) restaurant_only_world) =
     \<lparr>status = 500, body = Message ''Server error: Booking validation failed''\<rparr> \<and>
   required_present fractional_booking \<and> wellformed_userId (userId fractional_booking) \<and>
   positive_seats (seats fractional_booking) \<and> nonnegative_amount (amountPaid fractional_booking) \<and>
   fst (handle quiet (POST_api_bookings fractional_booking) restaurant_world) =
     \<lparr>status = 500, body = Message ''Server error: Booking validation failed''\<rparr>"
proof -
  have v: "required_present scenario_booking" "wellformed_userId (userId scenario_booking)"
    "positive_seats (seats scenario_booking)" "nonnegative_amount (amountPaid scenario_booking)"
    using valid_scenario_booking by (simp_all add: valid_booking_def)
  have fr: "required_present fractional_booking" "wellformed_userId (userId fractional_booking)"
    "positive_seats (seats fractional_booking)" "nonnegative_amount (amountPaid fractional_booking)"
    by (simp_all add: fractional_booking_def scenario_booking_def required_present_def
        wellformed_userId_def positive_seats_def nonnegative_amount_def isValid_def is_hex_def
        num_of_int_def)
  have "\<lfloor>5 / 2 :: rat\<rfloor> = 2"
    by (rule floor_unique) simp_all
  then have "rat_of_int \<lfloor>5 / 2 :: rat\<rfloor> \<noteq> 5 / 2"
    by simp
  then have "\<not> integral_seats (seats fractional_booking)"
    by (simp add: integral_seats_def fractional_booking_def del: of_int_floor_cancel)
  then have nf: "\<not> valid_booking fractional_booking"
    by (simp add: valid_booking_def)
  have ni: "\<not> references_exist identity_only_world scenario_booking"
    by (simp add: references_exist_def identity_only_world_def empty_world_def scenario_booking_def)
  have nr: "\<not> references_exist restaurant_only_world scenario_booking"
    by (simp add: references_exist_def restaurant_only_world_def empty_world_def
        scenario_booking_def)
  have q: "store_fault quiet = None"
    "store_fault store_down = Some ''connect ECONNREFUSED 127.0.0.1:27017''"
    by (simp_all add: quiet_def store_down_def)
  show ?thesis
    by (simp add: v fr handle_post valid_scenario_booking nf ni nr q)
qed

lemma js_le_zero_not_pos: "js_le n (num_of_int 0) \<Longrightarrow> \<not> js_lt (num_of_int 0) n"
  by (cases n) (auto simp: num_of_int_def split: if_splits)

lemma js_lt_zero_not_nonneg: "js_lt a (num_of_int 0) \<Longrightarrow> \<not> js_le (num_of_int 0) a"
  by (cases a) (auto simp: num_of_int_def split: if_splits)

text \<open>
  C4. A request whose seats are a number that is 0 or negative, or whose amountPaid is a
  negative number, is rejected: the answer is 500 and the Booking collection is as it
  was. Consequently every Booking that a sequence of requests adds to the collection
  has seats above 0 and amountPaid at least 0.
\<close>

theorem createBooking_rejects_outside_invariants:
  "((seats req = Some (JNum n) \<and> js_le n (num_of_int 0)) \<or>
    (amountPaid req = Some (JNum a) \<and> js_lt a (num_of_int 0)) \<longrightarrow>
      status (fst (handle e (POST_api_bookings req) w)) = 500 \<and>
      bookings (snd (handle e (POST_api_bookings req) w)) = bookings w) \<and>
   (\<exists>new. bookings (snd (run cs w0)) = bookings w0 @ new \<and>
      list_all (\<lambda>b. positive_seats (seats b) \<and> nonnegative_amount (amountPaid b)) new)"
proof -
  have "\<not> valid_booking req"
    if "(seats req = Some (JNum n) \<and> js_le n (num_of_int 0)) \<or>
        (amountPaid req = Some (JNum a) \<and> js_lt a (num_of_int 0))"
    using that js_le_zero_not_pos [of n] js_lt_zero_not_nonneg [of a]
    by (auto simp: valid_booking_def positive_seats_def nonnegative_amount_def)
  moreover have "\<exists>new. bookings (snd (run cs w0)) = bookings w0 @ new \<and>
      list_all (\<lambda>b. positive_seats (seats b) \<and> nonnegative_amount (amountPaid b)) new"
    using run_bookings [of cs w0] by (simp add: within_invariants_def [abs_def])
  ultimately show ?thesis
    by (auto simp: handle_post)
qed

text \<open>
  Scenario 1 with 0 seats and scenario 1 with an amount of -1, both refused; and scenario
  1 with 0 seats followed by scenario 1, of which only the second is stored.
\<close>

theorem createBooking_rejects_outside_invariants_witness:
  "seats (scenario_booking\<lparr>seats := Some (JNum (num_of_int 0))\<rparr>) = Some (JNum (num_of_int 0)) \<and>
   js_le (num_of_int 0) (num_of_int 0) \<and>
   status (fst (handle quiet
     (POST_api_bookings (scenario_booking\<lparr>seats := Some (JNum (num_of_int 0))\<rparr>)) empty_world)) = 500 \<and>
   bookings (snd (handle quiet
     (POST_api_bookings (scenario_booking\<lparr>seats := Some (JNum (num_of_int 0))\<rparr>)) empty_world)) = [] \<and>
   amountPaid (scenario_booking\<lparr>amountPaid := Some (JNum (num_of_int (- 1)))\<rparr>) =
     Some (JNum (num_of_int (- 1))) \<and>
   js_lt (num_of_int (- 1)) (num_of_int 0) \<and>
   status (fst (handle quiet
     (POST_api_bookings (scenario_booking\<lparr>amountPaid := Some (JNum (num_of_int (- 1)))\<rparr>)) empty_world)) = 500 \<and>
   bookings (snd (handle quiet
     (POST_api_bookings (scenario_booking\<lparr>amountPaid := Some (JNum (num_of_int (- 1)))\<rparr>)) empty_world)) = [] \<and>
   bookings (snd (run
      [(quiet, POST_api_bookings (scenario_booking\<lparr>seats := Some (JNum (num_of_int 0))\<rparr>)),
       (quiet, POST_api_bookings scenario_booking)] restaurant_world)) =
     [stored scenario_booking 0] \<and>
   list_all (\<lambda>b. positive_seats (seats b) \<and> nonnegative_amount (amountPaid b))
     (bookings (snd (run
        [(quiet, POST_api_bookings (scenario_booking\<lparr>seats := Some (JNum (num_of_int 0))\<rparr>)),
         (quiet, POST_api_bookings scenario_booking)] restaurant_world)))"
proof -
  let ?zero = "scenario_booking\<lparr>seats := Some (JNum (num_of_int 0))\<rparr>"
  have z: "js_le (num_of_int 0) (num_of_int 0)" "js_lt (num_of_int (- 1)) (num_of_int 0)"
    by (simp_all add: num_of_int_def)
  have e: "bookings empty_world = []" "bookings restaurant_world = []"
    "next_id restaurant_world = 0"
    by (simp_all add: empty_world_def restaurant_world_def)
  have q: "store_fault quiet = None"
    by (simp add: quiet_def)
  have "\<not> valid_booking ?zero"
    by (simp add: valid_booking_def positive_seats_def num_of_int_def)
  then have r: "bookings (snd (run [(quiet, POST_api_bookings ?zero),
      (quiet, POST_api_bookings scenario_booking)] restaurant_world)) = [stored scenario_booking 0]"
    by (simp add: run_Cons handle_post valid_scenario_booking references_scenario_booking
        references_exist_update q e)
  show ?thesis
    using createBooking_rejects_outside_invariants
        [of ?zero "num_of_int 0" "num_of_int 0" quiet empty_world
          "[(quiet, POST_api_bookings ?zero), (quiet, POST_api_bookings scenario_booking)]"
          restaurant_world]
      createBooking_rejects_outside_invariants
        [of "scenario_booking\<lparr>amountPaid := Some (JNum (num_of_int (- 1)))\<rparr>" "num_of_int 0"
          "num_of_int (- 1)" quiet empty_world "[]" empty_world]
    by (simp add: z e r)
qed

text \<open>
  C5. If createBooking answers 201 with a Booking for a request of owner \<open>u\<close>, then after
  any further requests, whatever the store does while they are served, a listing for
  \<open>u\<close> during which the store does not fail answers 200 with a sequence that contains
  that Booking, its restaurant reference expanded.
\<close>

theorem create_then_list_recovers:
  assumes "handle e (POST_api_bookings req) w = (\<lparr>status = 201, body = BookingJson b\<rparr>, w1)"
    and "userId req = Some (JStr u)"
    and "run cs w1 = (rs, w2)"
    and "store_fault e' = None"
  shows "\<exists>ps. fst (handle e' (GET_api_bookings_userId u) w2) =
            \<lparr>status = 200, body = PopulatedJson ps\<rparr> \<and>
          populate (restaurants w2) b \<in> set ps"
proof -
  have b: "b = stored req (next_id w)" and w1: "bookings w1 = bookings w @ [b]"
    using assms(1) by (auto simp: handle_post split: if_splits option.splits)
  obtain new where "bookings w2 = bookings w1 @ new"
    using run_bookings [of cs w1] assms(3) by auto
  then have "b \<in> set (bookings w2)"
    using w1 by simp
  moreover have "userId b = Some (JStr u)"
    using b assms(2) by (simp add: stored_def)
  ultimately have "b \<in> set (bookings_of u w2)"
    by (simp add: bookings_of_def)
  then show ?thesis
    using assms(4) by (auto simp: handle_get_api)
qed

text \<open>
  Scenarios 1 and 2, with a failed creation and a raw listing in between.
\<close>

theorem create_then_list_recovers_witness:
  "(\<exists>b w1 rs w2.
      handle quiet (POST_api_bookings scenario_booking) restaurant_world =
        (\<lparr>status = 201, body = BookingJson b\<rparr>, w1) \<and>
      userId scenario_booking = Some (JStr ''507f1f77bcf86cd799439011'') \<and>
      run [(store_down, POST_api_bookings scenario_booking),
           (quiet, GET_bookings (Some ''507f1f77bcf86cd799439011''))] w1 = (rs, w2) \<and>
      store_fault quiet = None \<and>
      (\<exists>ps. fst (handle quiet (GET_api_bookings_userId ''507f1f77bcf86cd799439011'') w2) =
              \<lparr>status = 200, body = PopulatedJson ps\<rparr> \<and>
            \<lparr>doc = b, restaurant = Some (JObj [(''name'', JStr ''Spice Garden'')])\<rparr> \<in> set ps))"
proof -
  let ?u = "''507f1f77bcf86cd799439011''"
  let ?cs = "[(store_down, POST_api_bookings scenario_booking), (quiet, GET_bookings (Some ?u))]"
  let ?b = "stored scenario_booking (next_id restaurant_world)"
  let ?w1 = "snd (handle quiet (POST_api_bookings scenario_booking) restaurant_world)"
  let ?rs = "fst (run ?cs ?w1)" and ?w2 = "snd (run ?cs ?w1)"
  have q: "store_fault quiet = None"
    by (simp add: quiet_def)
  have u: "userId scenario_booking = Some (JStr ?u)"
    by (simp add: scenario_booking_def)
  have h: "handle quiet (POST_api_bookings scenario_booking) restaurant_world =
      (\<lparr>status = 201, body = BookingJson ?b\<rparr>, ?w1)"
    by (simp add: handle_post valid_scenario_booking references_scenario_booking q)
  have r: "run ?cs ?w1 = (?rs, ?w2)"
    by simp
  have "restaurants ?w2 = restaurants restaurant_world"
    by (simp add: run_restaurants handle_restaurants)
  then have p: "populate (restaurants ?w2) ?b =
      \<lparr>doc = ?b, restaurant = Some (JObj [(''name'', JStr ''Spice Garden'')])\<rparr>"
    by (simp add: populate_def stored_def scenario_booking_def restaurant_world_def)
  show ?thesis
    using create_then_list_recovers [OF h u r q] h u r q unfolding p by blast
qed

text \<open>
  C6. The listing by owner answers 404 exactly when the query succeeds and the user
  owns no Booking, 200 with the user's Bookings, each with its restaurant reference
  expanded, when the user owns at least one, and 500 when the store fails. The first
  part is the handler alone, for whatever the query returns.
\<close>

theorem list_bookings_status:
  "fst (get_api_bookings_userId (\<lambda>u w. (found, w)) u w0) =
     (case found of
        Inr ps \<Rightarrow> if ps = [] then \<lparr>status = 404, body = Message ''No bookings found''\<rparr>
                  else \<lparr>status = 200, body = PopulatedJson ps\<rparr>
      | Inl m \<Rightarrow> \<lparr>status = 500, body = Message ''Error fetching bookings''\<rparr>) \<and>
   (store_fault e = None \<and> bookings_of u w = [] \<longrightarrow>
      fst (handle e (GET_api_bookings_userId u) w) =
        \<lparr>status = 404, body = Message ''No bookings found''\<rparr>) \<and>
   (store_fault e = None \<and> bookings_of u w \<noteq> [] \<longrightarrow>
      fst (handle e (GET_api_bookings_userId u) w) =
        \<lparr>status = 200, body = PopulatedJson (map (populate (restaurants w)) (bookings_of u w))\<rparr>) \<and>
   (store_fault e \<noteq> None \<longrightarrow>
      fst (handle e (GET_api_bookings_userId u) w) =
        \<lparr>status = 500, body = Message ''Error fetching bookings''\<rparr>) \<and>
   (status (fst (handle e (GET_api_bookings_userId u) w)) = 404 \<longleftrightarrow>
      store_fault e = None \<and> bookings_of u w = [])"
proof -
  have "fst (get_api_bookings_userId (\<lambda>u w. (found, w)) u w0) =
     (case found of
        Inr ps \<Rightarrow> if ps = [] then \<lparr>status = 404, body = Message ''No bookings found''\<rparr>
                  else \<lparr>status = 200, body = PopulatedJson ps\<rparr>
      | Inl m \<Rightarrow> \<lparr>status = 500, body = Message ''Error fetching bookings''\<rparr>)"
    by (simp add: get_api_bookings_userId_def split: sum.splits)
  then show ?thesis
    by (auto simp: handle_get_api split: option.splits)
qed

lemma booked_world_eq:
  "booked_world =
     restaurant_world\<lparr>calls := [Save scenario_booking], bookings := [stored scenario_booking 0],
       next_id := 1\<rparr>"
proof -
  have "booked_world =
      restaurant_world\<lparr>calls := calls restaurant_world @ [Save scenario_booking],
        bookings := bookings restaurant_world @ [stored scenario_booking (next_id restaurant_world)],
        next_id := Suc (next_id restaurant_world)\<rparr>"
    by (simp add: booked_world_def handle_post valid_scenario_booking references_scenario_booking
        quiet_def)
  then show ?thesis
    by (simp add: restaurant_world_def empty_world_def)
qed

lemma populate_scenario:
  "populate (restaurants restaurant_world) (stored scenario_booking 0) =
     \<lparr>doc = stored scenario_booking 0, restaurant = Some (JObj [(''name'', JStr ''Spice Garden'')])\<rparr>"
  by (simp add: populate_def stored_def scenario_booking_def restaurant_world_def)

text \<open>
  Scenario 3 (no Booking: 404), scenario 2 (one Booking: 200) and a store that is down.
\<close>

theorem list_bookings_status_witness:
  "store_fault quiet = None \<and>
   bookings_of ''507f1f77bcf86cd799439011'' empty_world = [] \<and>
   fst (handle quiet (GET_api_bookings_userId ''507f1f77bcf86cd799439011'') empty_world) =
     \<lparr>status = 404, body = Message ''No bookings found''\<rparr> \<and>
   bookings_of ''507f1f77bcf86cd799439011'' booked_world \<noteq> [] \<and>
   fst (handle quiet (GET_api_bookings_userId ''507f1f77bcf86cd799439011'') booked_world) =
     \<lparr>status = 200,
      body = PopulatedJson
        [\<lparr>doc = stored scenario_booking 0,
          restaurant = Some (JObj [(''name'', JStr ''Spice Garden'')])\<rparr>]\<rparr> \<and>
   store_fault store_down \<noteq> None \<and>
   fst (handle store_down (GET_api_bookings_userId ''507f1f77bcf86cd799439011'') booked_world) =
     \<lparr>status = 500, body = Message ''Error fetching bookings''\<rparr>"
proof -
  let ?u = "''507f1f77bcf86cd799439011''"
  have q: "store_fault quiet = None" "store_fault store_down \<noteq> None"
    by (simp_all add: quiet_def store_down_def)
  have none: "bookings_of ?u empty_world = []"
    by (simp add: bookings_of_def empty_world_def)
  have one: "bookings_of ?u booked_world = [stored scenario_booking 0]"
    by (simp add: bookings_of_def booked_world_eq stored_def scenario_booking_def)
  have r: "restaurants booked_world = restaurants restaurant_world"
    by (simp add: booked_world_eq)
  show ?thesis
    using list_bookings_status [of "Inr []" ?u empty_world quiet empty_world]
      list_bookings_status [of "Inr []" ?u empty_world quiet booked_world]
      list_bookings_status [of "Inr []" ?u empty_world store_down booked_world]
    by (simp add: q none one r populate_scenario)
qed

lemma not_isValid_example: "\<not> isValid ''not-an-id''"
  by (simp add: isValid_def)

lemma malformed_booking_invalid: "\<not> valid_booking malformed_booking"
  by (simp add: valid_booking_def malformed_booking_def scenario_booking_def wellformed_userId_def
      not_isValid_example)

lemma incomplete_booking_invalid: "\<not> required_present incomplete_booking"
  by (simp add: required_present_def incomplete_booking_def)

text \<open>
  C1 at the userId \<^verbatim>\<open>not-an-id\<close>. Whatever the Booking model does, neither the booking
  route nor the listing by owner answers 400; with the model of the specification the
  first calls \<^verbatim>\<open>save\<close> and answers 500, the second calls \<^verbatim>\<open>find\<close> and answers 404. Only the
  route \<^verbatim>\<open>/bookings\<close> answers 400 and leaves the model alone.
\<close>

theorem malformed_userId_not_rejected_as_invalid:
  "\<not> isValid ''not-an-id'' \<and>
   status (fst (post_api_bookings save malformed_booking w)) \<noteq> 400 \<and>
   status (fst (get_api_bookings_userId find_populate ''not-an-id'' w')) \<noteq> 400 \<and>
   handle quiet (POST_api_bookings malformed_booking) empty_world =
     (\<lparr>status = 500, body = Message ''Server error: Booking validation failed''\<rparr>,
      empty_world\<lparr>calls := [Save malformed_booking]\<rparr>) \<and>
   handle quiet (GET_api_bookings_userId ''not-an-id'') empty_world =
     (\<lparr>status = 404, body = Message ''No bookings found''\<rparr>,
      empty_world\<lparr>calls := [Find ''not-an-id'']\<rparr>) \<and>
   handle quiet (GET_bookings (Some ''not-an-id'')) empty_world =
     (\<lparr>status = 400, body = ErrorMessage ''Invalid userId format''\<rparr>, empty_world)"
proof -
  have "status (fst (post_api_bookings save malformed_booking w)) \<noteq> 400"
    using post_api_bookings_status [of save malformed_booking w] by auto
  moreover have "status (fst (get_api_bookings_userId find_populate ''not-an-id'' w')) \<noteq> 400"
    using get_api_bookings_userId_status [of find_populate "''not-an-id''" w'] by auto
  moreover have "bookings_of ''not-an-id'' empty_world = []" "calls empty_world = []"
    by (simp_all add: bookings_of_def empty_world_def)
  ultimately show ?thesis
    by (simp add: not_isValid_example handle_post handle_get_api handle_get_bookings
        malformed_booking_invalid quiet_def)
qed

text \<open>
  C3 at scenario 1 without its seats. Whatever the Booking model does, the booking route
  answers 201 or 500, never 400; with the model of the specification the missing field
  is answered 500.
\<close>

theorem missing_field_answered_500:
  "(status (fst (post_api_bookings save req w)) = 201 \<or>
    status (fst (post_api_bookings save req w)) = 500) \<and>
   seats incomplete_booking = None \<and>
   handle quiet (POST_api_bookings incomplete_booking) empty_world =
     (\<lparr>status = 500, body = Message ''Server error: Booking validation failed''\<rparr>,
      empty_world\<lparr>calls := [Save incomplete_booking]\<rparr>)"
proof -
  have "\<not> valid_booking incomplete_booking"
    using incomplete_booking_invalid by (simp add: valid_booking_def)
  moreover have "calls empty_world = []" "seats incomplete_booking = None"
    by (simp_all add: empty_world_def incomplete_booking_def)
  ultimately show ?thesis
    using post_api_bookings_status [of save req w] by (simp add: handle_post)
qed

text \<open>
  C7 at a store that refuses the connection. The body of the 500 response is the text
  \<^verbatim>\<open>Server error: \<close> followed by the message of the error that the write raised.
\<close>

theorem store_error_message_in_response:
  "fst (post_api_bookings (\<lambda>f w. (Inl message, w)) req w) =
     \<lparr>status = 500, body = Message (''Server error: '' @ message)\<rparr> \<and>
   fst (handle store_down (POST_api_bookings scenario_booking) empty_world) =
     \<lparr>status = 500, body = Message ''Server error: connect ECONNREFUSED 127.0.0.1:27017''\<rparr>"
  by (simp add: post_api_bookings_def handle_post valid_scenario_booking store_down_def)

end
